theory Spec2Isabelle
  imports Main "HOL-Library.Word" "HOL-Library.Stream"
begin

section \<open>Build configuration\<close>

text \<open>
  \<^verbatim>\<open>pal_time.c\<close> selects its code paths with the preprocessor. The macros it tests come
  from \<^verbatim>\<open>pal_config.h\<close> and the compiler command line; they are the fields of the
  configuration below. \<open>NDEBUG\<close> is the standard macro that compiles \<^verbatim>\<open>assert\<close> away.
\<close>

record config =
  HAVE_CLOCK_MONOTONIC :: bool
  HAVE_MACH_ABSOLUTE_TIME :: bool
  HAVE_MACH_TIMEBASE_INFO :: bool
  DISABLE_PORTABILITY :: bool
  NDEBUG :: bool

text \<open>
  The anonymous enums of the file. The two conversion factors are only ever multiplied
  with, or assigned to, a \<^verbatim>\<open>uint64_t\<close>, so they are given at that type. Return values,
  \<^verbatim>\<open>errno\<close> and the portability flags are C \<^verbatim>\<open>int\<close>s that the code compares with constants and
  never computes with; they are modelled as \<open>int\<close>.
\<close>

definition PORTABILITY_NONE :: int where "PORTABILITY_NONE = 0"
definition PORTABILITY_UNKNOWN :: int where "PORTABILITY_UNKNOWN = 1"
definition PORTABILITY_DRIVE :: int where "PORTABILITY_DRIVE = 2"
definition PORTABILITY_CASE :: int where "PORTABILITY_CASE = 4"

definition SecondsToMicroSeconds :: "64 word" where
  "SecondsToMicroSeconds = 1000000"

definition SecondsToNanoSeconds :: "64 word" where
  "SecondsToNanoSeconds = 1000000000"

text \<open>
  Constants of the system headers: \<^verbatim>\<open>ENOENT\<close> and \<^verbatim>\<open>EINTR\<close> of \<^verbatim>\<open><errno.h>\<close> (the same
  numbers on Linux, macOS and the BSDs) and \<^verbatim>\<open>KERN_SUCCESS\<close> of \<^verbatim>\<open><mach/kern_return.h>\<close>.
\<close>

definition ENOENT :: int where "ENOENT = 2"
definition EINTR :: int where "EINTR = 4"
definition KERN_SUCCESS :: int where "KERN_SUCCESS = 0"

section \<open>File times\<close>

subsection \<open>Argument structures\<close>

text \<open>
  \<^verbatim>\<open>UTimBuf\<close> and \<^verbatim>\<open>TimeValPair\<close> are the fixed-layout structures of \<^verbatim>\<open>pal_time.h\<close>, all
  fields \<^verbatim>\<open>int64_t\<close>. The native structures hold \<^verbatim>\<open>time_t\<close> and \<^verbatim>\<open>long\<close>, taken as 64 bits
  wide (LP64), so that the casts of the conversion functions keep every bit. A signed
  field is read with \<open>sint\<close>.
\<close>

record UTimBuf =
  AcTime :: "64 word"
  ModTime :: "64 word"

record utimbuf =
  actime :: "64 word"
  modtime :: "64 word"

record TimeValPair =
  AcTimeSec :: "64 word"
  AcTimeUSec :: "64 word"
  ModTimeSec :: "64 word"
  ModTimeUSec :: "64 word"

record timeval =
  tv_sec :: "64 word"
  tv_usec :: "64 word"

definition ConvertUTimBuf :: "UTimBuf \<Rightarrow> utimbuf" where
  "ConvertUTimBuf pal = \<lparr>actime = AcTime pal, modtime = ModTime pal\<rparr>"

definition ConvertTimeValPair :: "TimeValPair \<Rightarrow> timeval \<times> timeval" where
  "ConvertTimeValPair pal =
     (\<lparr>tv_sec = AcTimeSec pal, tv_usec = AcTimeUSec pal\<rparr>,
      \<lparr>tv_sec = ModTimeSec pal, tv_usec = ModTimeUSec pal\<rparr>)"

subsection \<open>The process and its environment\<close>

text \<open>
  A system call either succeeds (it returns 0) or fails (it returns -1 and stores an error
  number in \<^verbatim>\<open>errno\<close>): the contract of \<^verbatim>\<open>utime\<close> and \<^verbatim>\<open>utimes\<close>.
\<close>

datatype reply = Done | Failed int

datatype call = Utime string utimbuf | Utimes string "timeval \<times> timeval"

text \<open>
  Everything the two entry points do to the outside is recorded: each system call with the
  kernel's reply, the fallback lookup with its result, and the release of the string it
  returned.
\<close>

datatype event =
    Syscall call reply
  | FindFile string bool "string option"
  | GFree string

text \<open>
  The state threaded through the calls:
  \<^item> \<open>errno\<close>, the thread's error number;
  \<^item> \<open>mono_io_portability_helpers\<close>, the global \<^verbatim>\<open>mono_io_portability_helpers_COREFX\<close>;
  \<^item> \<open>kernel\<close>, the replies the kernel gives to the \<^verbatim>\<open>utime\<close>/\<^verbatim>\<open>utimes\<close> calls still to come,
    in order. The stream is infinite: a kernel that interrupts every call is one of them;
  \<^item> \<open>find_file\<close>, the collaborator \<^verbatim>\<open>mono_portability_find_file_COREFX\<close>: for a path and the
    \<^verbatim>\<open>last_exists\<close> flag, the located name (\<open>None\<close> for \<^verbatim>\<open>NULL\<close>) and the error number it
    leaves in \<^verbatim>\<open>errno\<close>, if it stores one;
  \<^item> \<open>trace\<close>, the events so far.
\<close>

record world =
  errno :: int
  mono_io_portability_helpers :: int
  kernel :: "reply stream"
  find_file :: "string \<Rightarrow> bool \<Rightarrow> string option \<times> int option"
  trace :: "event list"

fun result_of :: "reply \<Rightarrow> int" where
  "result_of Done = 0"
| "result_of (Failed e) = - 1"

fun errno_after :: "reply \<Rightarrow> int \<Rightarrow> int" where
  "errno_after Done old = old"
| "errno_after (Failed e) old = e"

text \<open>
  One system call: the kernel's next reply is consumed, the return value is the reply's,
  \<^verbatim>\<open>errno\<close> is stored on failure, and the call is recorded. \<^verbatim>\<open>utime(path, &temp)\<close> is
  \<open>sys (Utime path temp)\<close> and \<^verbatim>\<open>utimes(path, temp)\<close> is \<open>sys (Utimes path temp)\<close>.
\<close>

definition sys :: "call \<Rightarrow> world \<Rightarrow> int \<times> world" where
  "sys c w =
     (let r = shd (kernel w)
      in (result_of r,
          w\<lparr>errno := errno_after r (errno w), kernel := stl (kernel w),
            trace := trace w @ [Syscall c r]\<rparr>))"

text \<open>
  Modelled from the spec: \<^verbatim>\<open>CheckInterrupted\<close> of \<^verbatim>\<open>pal_utilities.h\<close>, which is not among the
  sources. The spec's glossary calls a system call interrupted when it returns early
  because a signal was delivered: the call has failed and the error number is \<^verbatim>\<open>EINTR\<close>.
\<close>

definition CheckInterrupted :: "int \<Rightarrow> world \<Rightarrow> bool" where
  "CheckInterrupted result w = (result < 0 \<and> errno w = EINTR)"

text \<open>
  \<^verbatim>\<open>#define IS_PORTABILITY_SET (mono_io_portability_helpers > 0)\<close>, and \<^verbatim>\<open>FALSE\<close> under
  \<^verbatim>\<open>DISABLE_PORTABILITY\<close>.
\<close>

definition IS_PORTABILITY_SET :: "config \<Rightarrow> world \<Rightarrow> bool" where
  "IS_PORTABILITY_SET cfg w =
     (if DISABLE_PORTABILITY cfg then False else mono_io_portability_helpers w > 0)"

text \<open>
  \<^verbatim>\<open>mono_portability_find_file\<close>: the constant \<^verbatim>\<open>NULL\<close> under \<^verbatim>\<open>DISABLE_PORTABILITY\<close>, the
  collaborator otherwise.
\<close>

definition mono_portability_find_file ::
    "config \<Rightarrow> string \<Rightarrow> bool \<Rightarrow> world \<Rightarrow> string option \<times> world" where
  "mono_portability_find_file cfg pathname last_exists w =
     (if DISABLE_PORTABILITY cfg then (None, w)
      else
        (case find_file w pathname last_exists of
           (located, e) \<Rightarrow>
             (located,
              w\<lparr>errno := (case e of None \<Rightarrow> errno w | Some n \<Rightarrow> n),
                trace := trace w @ [FindFile pathname last_exists located]\<rparr>)))"

text \<open>\<^verbatim>\<open>g_free\<close> releases the string; it leaves \<^verbatim>\<open>errno\<close> alone.\<close>

definition g_free :: "string \<Rightarrow> world \<Rightarrow> world" where
  "g_free p w = w\<lparr>trace := trace w @ [GFree p]\<rparr>"

subsection \<open>The retry loop\<close>

text \<open>
  \<^verbatim>\<open>while (CheckInterrupted(result = utime(path, &temp)));\<close> and its three siblings, which
  differ in the call only. The loop has no bound, so it is a partial function: \<open>None\<close> is
  the run that never leaves the loop.
\<close>

partial_function (option) retry :: "call \<Rightarrow> world \<Rightarrow> (int \<times> world) option" where
  "retry c w =
     (case sys c w of
        (result, w') \<Rightarrow>
          if CheckInterrupted result w' then retry c w' else Some (result, w'))"

subsection \<open>The entry points\<close>

text \<open>
  The result is \<open>None\<close> when a retry loop never ends, and the return value with the state
  of the process otherwise. The \<^verbatim>\<open>times\<close> argument is a structure, not a pointer to one, so
  \<^verbatim>\<open>assert(times != NULL)\<close> holds by construction.
\<close>

definition SystemNative_UTime ::
    "config \<Rightarrow> string \<Rightarrow> UTimBuf \<Rightarrow> world \<Rightarrow> (int \<times> world) option" where
  "SystemNative_UTime cfg path tms w =
     (let temp = ConvertUTimBuf tms in
      case retry (Utime path temp) w of
        None \<Rightarrow> None
      | Some (result, w1) \<Rightarrow>
          if result = - 1 \<and> errno w1 = ENOENT \<and> IS_PORTABILITY_SET cfg w1 then
            (let saved_errno = errno w1 in
             case mono_portability_find_file cfg path True w1 of
               (None, w2) \<Rightarrow> Some (- 1, w2\<lparr>errno := saved_errno\<rparr>)
             | (Some located_filename, w2) \<Rightarrow>
                 (case retry (Utime located_filename temp) w2 of
                    None \<Rightarrow> None
                  | Some (result', w3) \<Rightarrow> Some (result', g_free located_filename w3)))
          else Some (result, w1))"

definition SystemNative_UTimes ::
    "config \<Rightarrow> string \<Rightarrow> TimeValPair \<Rightarrow> world \<Rightarrow> (int \<times> world) option" where
  "SystemNative_UTimes cfg path tms w =
     (let temp = ConvertTimeValPair tms in
      case retry (Utimes path temp) w of
        None \<Rightarrow> None
      | Some (result, w1) \<Rightarrow>
          if result = - 1 \<and> errno w1 = ENOENT \<and> IS_PORTABILITY_SET cfg w1 then
            (let saved_errno = errno w1 in
             case mono_portability_find_file cfg path True w1 of
               (None, w2) \<Rightarrow> Some (- 1, w2\<lparr>errno := saved_errno\<rparr>)
             | (Some located_filename, w2) \<Rightarrow>
                 (case retry (Utimes located_filename temp) w2 of
                    None \<Rightarrow> None
                  | Some (result', w3) \<Rightarrow> Some (result', g_free located_filename w3)))
          else Some (result, w1))"

section \<open>Clocks\<close>

text \<open>
  \<^verbatim>\<open>struct timespec\<close>; its fields are \<^verbatim>\<open>tv_sec\<close> and \<^verbatim>\<open>tv_nsec\<close> in C, renamed here because
  \<^verbatim>\<open>struct timeval\<close> has a \<^verbatim>\<open>tv_sec\<close> of its own.
\<close>

record timespec =
  ts_sec :: "64 word"
  ts_nsec :: "64 word"

record mach_timebase_info_data_t =
  numer :: "32 word"
  denom :: "32 word"

text \<open>
  What the host answers to the one call an entry point makes: the return value and the
  contents of the buffer after the call (whatever the memory holds, when the call failed
  and wrote nothing).
\<close>

record host =
  clock_gettime_MONOTONIC :: "int \<times> timespec"
  mach_timebase_info :: "int \<times> mach_timebase_info_data_t"
  mach_absolute_time :: "64 word"
  gettimeofday :: "int \<times> timeval"

text \<open>
  The ways an entry point can end without returning: a failed \<^verbatim>\<open>assert\<close> (in a build
  without \<^verbatim>\<open>NDEBUG\<close>) and the division by zero, which C leaves undefined. The
  out-parameters are part of the result (the return value first, then what was written),
  so the assertions that they are not \<^verbatim>\<open>NULL\<close> hold by construction.
\<close>

datatype fault = AssertionFailed | DivideByZero

definition SystemNative_GetTimestampResolution ::
    "config \<Rightarrow> host \<Rightarrow> fault + int \<times> 64 word" where
  "SystemNative_GetTimestampResolution cfg h =
     (if HAVE_CLOCK_MONOTONIC cfg then
        (if fst (clock_gettime_MONOTONIC h) = 0 then Inr (1, SecondsToNanoSeconds)
         else Inr (0, 0))
      else if HAVE_MACH_ABSOLUTE_TIME cfg then
        (case mach_timebase_info h of
           (kr, mtid) \<Rightarrow>
             if kr = KERN_SUCCESS then
               (if numer mtid = 0 then Inl DivideByZero
                else Inr (1, SecondsToNanoSeconds * (ucast (denom mtid) div ucast (numer mtid))))
             else Inr (0, 0))
      else Inr (1, SecondsToMicroSeconds))"

definition SystemNative_GetTimestamp ::
    "config \<Rightarrow> host \<Rightarrow> fault + int \<times> 64 word" where
  "SystemNative_GetTimestamp cfg h =
     (if HAVE_CLOCK_MONOTONIC cfg then
        (case clock_gettime_MONOTONIC h of
           (result, ts) \<Rightarrow>
             if result \<noteq> 0 \<and> \<not> NDEBUG cfg then Inl AssertionFailed
             else Inr (1, ts_sec ts * SecondsToNanoSeconds + ts_nsec ts))
      else if HAVE_MACH_ABSOLUTE_TIME cfg then Inr (1, mach_absolute_time h)
      else
        (case gettimeofday h of
           (rc, tv) \<Rightarrow>
             if rc = 0 then Inr (1, tv_sec tv * SecondsToMicroSeconds + tv_usec tv)
             else Inr (0, 0)))"

definition SystemNative_GetAbsoluteTime ::
    "config \<Rightarrow> host \<Rightarrow> fault + int \<times> 64 word" where
  "SystemNative_GetAbsoluteTime cfg h =
     (if HAVE_MACH_ABSOLUTE_TIME cfg then Inr (1, mach_absolute_time h) else Inr (0, 0))"

text \<open>The result is the return value and the two words written to \<^verbatim>\<open>*numer\<close> and \<^verbatim>\<open>*denom\<close>.\<close>

definition SystemNative_GetTimebaseInfo ::
    "config \<Rightarrow> host \<Rightarrow> fault + int \<times> 32 word \<times> 32 word" where
  "SystemNative_GetTimebaseInfo cfg h =
     (if HAVE_MACH_TIMEBASE_INFO cfg then
        (case mach_timebase_info h of
           (ret, timebase) \<Rightarrow>
             if ret \<noteq> KERN_SUCCESS \<and> \<not> NDEBUG cfg then Inl AssertionFailed
             else if ret = KERN_SUCCESS then Inr (1, numer timebase, denom timebase)
             else Inr (1, 1, 1))
      else Inr (1, 1, 1))"

section \<open>Vocabulary of the statements\<close>

subsection \<open>File times\<close>

text \<open>
  The two entry points are the same code around a different system call. \<open>set_times\<close> is
  that common code over the call \<open>mk\<close>; the lemmas \<open>UTime_set_times\<close> and
  \<open>UTimes_set_times\<close> below show that each entry point is an instance of it.
\<close>

definition set_times ::
    "config \<Rightarrow> (string \<Rightarrow> call) \<Rightarrow> string \<Rightarrow> world \<Rightarrow> (int \<times> world) option" where
  "set_times cfg mk path w =
     (case retry (mk path) w of
        None \<Rightarrow> None
      | Some (result, w1) \<Rightarrow>
          if result = - 1 \<and> errno w1 = ENOENT \<and> IS_PORTABILITY_SET cfg w1 then
            (case mono_portability_find_file cfg path True w1 of
               (None, w2) \<Rightarrow> Some (- 1, w2\<lparr>errno := errno w1\<rparr>)
             | (Some located_filename, w2) \<Rightarrow>
                 (case retry (mk located_filename) w2 of
                    None \<Rightarrow> None
                  | Some (result', w3) \<Rightarrow> Some (result', g_free located_filename w3)))
          else Some (result, w1))"

text \<open>
  The state a retry loop leaves behind after \<open>n\<close> interrupted calls and a last call with the
  reply \<open>r\<close>, when \<open>k\<close> are the replies the kernel has left.
\<close>

definition settled :: "call \<Rightarrow> nat \<Rightarrow> reply \<Rightarrow> reply stream \<Rightarrow> world \<Rightarrow> world" where
  "settled c n r k w =
     w\<lparr>errno := errno_after r (if n = 0 then errno w else EINTR), kernel := k,
       trace := trace w @ replicate n (Syscall c (Failed EINTR)) @ [Syscall c r]\<rparr>"

text \<open>The kernel's reply to the last system call of a trace.\<close>

fun last_reply :: "event list \<Rightarrow> reply option" where
  "last_reply [] = None"
| "last_reply (ev # evs) =
     (case last_reply evs of
        Some r \<Rightarrow> Some r
      | None \<Rightarrow> (case ev of Syscall c r \<Rightarrow> Some r | _ \<Rightarrow> None))"

subsection \<open>Clock readings\<close>

text \<open>
  Two readings of a clock in the order of time: seconds first, then the fraction. Both
  fields are signed.
\<close>

definition timespec_le :: "timespec \<Rightarrow> timespec \<Rightarrow> bool" where
  "timespec_le a b =
     (sint (ts_sec a) < sint (ts_sec b) \<or>
      (sint (ts_sec a) = sint (ts_sec b) \<and> sint (ts_nsec a) \<le> sint (ts_nsec b)))"

definition timeval_le :: "timeval \<Rightarrow> timeval \<Rightarrow> bool" where
  "timeval_le a b =
     (sint (tv_sec a) < sint (tv_sec b) \<or>
      (sint (tv_sec a) = sint (tv_sec b) \<and> sint (tv_usec a) \<le> sint (tv_usec b)))"

text \<open>
  The readings of the primitive the build selects do not decrease from the host \<open>h1\<close> of one
  call to the host \<open>h2\<close> of the next.
\<close>

definition readings_nondecreasing :: "config \<Rightarrow> host \<Rightarrow> host \<Rightarrow> bool" where
  "readings_nondecreasing cfg h1 h2 =
     (if HAVE_CLOCK_MONOTONIC cfg then
        timespec_le (snd (clock_gettime_MONOTONIC h1)) (snd (clock_gettime_MONOTONIC h2))
      else if HAVE_MACH_ABSOLUTE_TIME cfg then mach_absolute_time h1 \<le> mach_absolute_time h2
      else timeval_le (snd (gettimeofday h1)) (snd (gettimeofday h2)))"

text \<open>The fraction of a reading is in its range: nanoseconds below \<open>10^9\<close>, microseconds below \<open>10^6\<close>.\<close>

definition fraction_in_range :: "config \<Rightarrow> host \<Rightarrow> bool" where
  "fraction_in_range cfg h =
     (if HAVE_CLOCK_MONOTONIC cfg then
        0 \<le> sint (ts_nsec (snd (clock_gettime_MONOTONIC h))) \<and>
        sint (ts_nsec (snd (clock_gettime_MONOTONIC h))) < 1000000000
      else if HAVE_MACH_ABSOLUTE_TIME cfg then True
      else
        0 \<le> sint (tv_usec (snd (gettimeofday h))) \<and>
        sint (tv_usec (snd (gettimeofday h))) < 1000000)"

text \<open>
  The reading is not negative and its tick count fits the 64 bits of a timestamp.
\<close>

definition ticks_fit :: "config \<Rightarrow> host \<Rightarrow> bool" where
  "ticks_fit cfg h =
     (if HAVE_CLOCK_MONOTONIC cfg then
        0 \<le> sint (ts_sec (snd (clock_gettime_MONOTONIC h))) \<and>
        sint (ts_sec (snd (clock_gettime_MONOTONIC h))) * 1000000000
          + sint (ts_nsec (snd (clock_gettime_MONOTONIC h))) < 2 ^ 64
      else if HAVE_MACH_ABSOLUTE_TIME cfg then True
      else
        0 \<le> sint (tv_sec (snd (gettimeofday h))) \<and>
        sint (tv_sec (snd (gettimeofday h))) * 1000000
          + sint (tv_usec (snd (gettimeofday h))) < 2 ^ 64)"

subsection \<open>Concrete builds, hosts and processes\<close>

text \<open>
  A build with \<^verbatim>\<open>clock_gettime\<close> and assertions, and one for a Mach host without it.
\<close>

definition posix_build :: config where
  "posix_build =
     \<lparr>HAVE_CLOCK_MONOTONIC = True, HAVE_MACH_ABSOLUTE_TIME = False,
      HAVE_MACH_TIMEBASE_INFO = False, DISABLE_PORTABILITY = False, NDEBUG = False\<rparr>"

definition mach_build :: config where
  "mach_build =
     \<lparr>HAVE_CLOCK_MONOTONIC = False, HAVE_MACH_ABSOLUTE_TIME = True,
      HAVE_MACH_TIMEBASE_INFO = True, DISABLE_PORTABILITY = False, NDEBUG = False\<rparr>"

text \<open>A host whose calls all succeed, with the timebase 1/1.\<close>

definition quiet_host :: host where
  "quiet_host =
     \<lparr>clock_gettime_MONOTONIC = (0, \<lparr>ts_sec = 0, ts_nsec = 0\<rparr>),
      mach_timebase_info = (0, \<lparr>numer = 1, denom = 1\<rparr>),
      mach_absolute_time = 0,
      gettimeofday = (0, \<lparr>tv_sec = 0, tv_usec = 0\<rparr>)\<rparr>"

text \<open>
  Two fallback lookups: one that finds nothing and leaves \<^verbatim>\<open>EACCES\<close> (13) in \<^verbatim>\<open>errno\<close>, one
  that finds the upper-case name.
\<close>

definition lookup_none :: "string \<Rightarrow> bool \<Rightarrow> string option \<times> int option" where
  "lookup_none pathname last_exists = (None, Some 13)"

definition lookup_upper :: "string \<Rightarrow> bool \<Rightarrow> string option \<times> int option" where
  "lookup_upper pathname last_exists = (Some ''/TMP/A'', None)"

text \<open>A process with the fallback switched off, whose system calls all succeed.\<close>

definition calm_world :: world where
  "calm_world =
     \<lparr>errno = 0, mono_io_portability_helpers = 0, kernel = sconst Done,
      find_file = lookup_none, trace = []\<rparr>"

section \<open>The retry loop and the fallback\<close>

lemma UTime_set_times:
  "SystemNative_UTime cfg path tms w = set_times cfg (\<lambda>p. Utime p (ConvertUTimBuf tms)) path w"
  by (simp add: SystemNative_UTime_def set_times_def Let_def split: option.split prod.split)

lemma UTimes_set_times:
  "SystemNative_UTimes cfg path tvs w =
     set_times cfg (\<lambda>p. Utimes p (ConvertTimeValPair tvs)) path w"
  by (simp add: SystemNative_UTimes_def set_times_def Let_def split: option.split prod.split)

lemma sys_interrupted:
  "CheckInterrupted (fst (sys c w)) (snd (sys c w)) \<longleftrightarrow> shd (kernel w) = Failed EINTR"
  by (cases "shd (kernel w)") (simp_all add: sys_def CheckInterrupted_def Let_def)

lemma retry_again:
  assumes "shd (kernel w) = Failed EINTR"
  shows "retry c w = retry c (snd (sys c w))"
proof -
  have "CheckInterrupted (fst (sys c w)) (snd (sys c w))"
    using assms by (simp add: sys_interrupted)
  then show ?thesis
    by (subst retry.simps) (simp add: case_prod_unfold)
qed

lemma retry_leave:
  assumes "shd (kernel w) \<noteq> Failed EINTR"
  shows "retry c w = Some (sys c w)"
proof -
  have "\<not> CheckInterrupted (fst (sys c w)) (snd (sys c w))"
    using assms by (simp add: sys_interrupted)
  then show ?thesis
    by (subst retry.simps) (simp add: case_prod_unfold)
qed

lemma retry_shift:
  assumes "kernel w = replicate n (Failed EINTR) @- r ## k" and "r \<noteq> Failed EINTR"
  shows "retry c w = Some (result_of r, settled c n r k w)"
  using assms
proof (induction n arbitrary: w)
  case 0
  then have "shd (kernel w) = r" and "stl (kernel w) = k"
    by simp_all
  with 0 show ?case
    by (simp add: retry_leave sys_def settled_def Let_def)
next
  case (Suc n)
  let ?w1 = "snd (sys c w)"
  have hd: "shd (kernel w) = Failed EINTR"
    using Suc.prems by simp
  have k1: "kernel ?w1 = replicate n (Failed EINTR) @- r ## k"
    using Suc.prems by (simp add: sys_def Let_def)
  have "retry c w = retry c ?w1"
    using hd by (rule retry_again)
  also have "\<dots> = Some (result_of r, settled c n r k ?w1)"
    using k1 Suc.prems(2) by (rule Suc.IH)
  also have "settled c n r k ?w1 = settled c (Suc n) r k w"
    using hd by (simp add: settled_def sys_def Let_def)
  finally show ?case .
qed

lemma retry_kernel_shape:
  assumes "retry c w = Some y"
  shows "\<exists>n r k. kernel w = replicate n (Failed EINTR) @- r ## k \<and> r \<noteq> Failed EINTR"
proof (rule retry.raw_induct [OF _ assms])
  fix retry' :: "call \<Rightarrow> world \<Rightarrow> (int \<times> world) option" and c w y
  assume IH: "\<And>c w y. retry' c w = Some y \<Longrightarrow>
    \<exists>n r k. kernel w = replicate n (Failed EINTR) @- r ## k \<and> r \<noteq> Failed EINTR"
  assume step: "(case sys c w of
      (result, w') \<Rightarrow> if CheckInterrupted result w' then retry' c w' else Some (result, w'))
    = Some y"
  show "\<exists>n r k. kernel w = replicate n (Failed EINTR) @- r ## k \<and> r \<noteq> Failed EINTR"
  proof (cases "shd (kernel w) = Failed EINTR")
    case True
    then have "retry' c (snd (sys c w)) = Some y"
      using step by (simp add: case_prod_unfold sys_interrupted)
    then obtain n r k
      where "kernel (snd (sys c w)) = replicate n (Failed EINTR) @- r ## k"
        and r: "r \<noteq> Failed EINTR"
      using IH by blast
    then have "stl (kernel w) = replicate n (Failed EINTR) @- r ## k"
      by (simp add: sys_def Let_def)
    then have "kernel w = replicate (Suc n) (Failed EINTR) @- r ## k"
      using True by (metis replicate_Suc shift.simps(2) stream.collapse)
    with r show ?thesis by blast
  next
    case False
    have "kernel w = replicate 0 (Failed EINTR) @- shd (kernel w) ## stl (kernel w)"
      by simp
    with False show ?thesis by blast
  qed
qed

lemma retry_SomeD:
  assumes "retry c w = Some (res, w')"
  obtains n r k where "kernel w = replicate n (Failed EINTR) @- r ## k"
    and "r \<noteq> Failed EINTR" and "res = result_of r" and "w' = settled c n r k w"
proof -
  obtain n r k where k: "kernel w = replicate n (Failed EINTR) @- r ## k"
    and r: "r \<noteq> Failed EINTR"
    using retry_kernel_shape [OF assms] by blast
  then have "retry c w = Some (result_of r, settled c n r k w)"
    by (rule retry_shift)
  with assms have "res = result_of r" "w' = settled c n r k w"
    by simp_all
  with k r show ?thesis
    by (rule that)
qed

lemma first_definitive:
  assumes "s !! n \<noteq> x"
  shows "\<exists>m r k. s = replicate m x @- r ## k \<and> r \<noteq> x \<and> k = sdrop (Suc m) s"
  using assms
proof (induction n arbitrary: s)
  case 0
  have "s = replicate 0 x @- shd s ## stl s" by simp
  moreover have "shd s \<noteq> x" using 0 by simp
  moreover have "stl s = sdrop (Suc 0) s" by simp
  ultimately show ?case by blast
next
  case (Suc n)
  show ?case
  proof (cases "shd s = x")
    case True
    from Suc.prems have "stl s !! n \<noteq> x" by simp
    then obtain m r k where t: "stl s = replicate m x @- r ## k" and r: "r \<noteq> x"
      and k: "k = sdrop (Suc m) (stl s)"
      using Suc.IH by blast
    have "s = replicate (Suc m) x @- r ## k"
      using True t by (metis replicate_Suc shift.simps(2) stream.collapse)
    moreover have "k = sdrop (Suc (Suc m)) s"
      using k by simp
    ultimately show ?thesis using r by blast
  next
    case False
    have "s = replicate 0 x @- shd s ## stl s" by simp
    moreover have "stl s = sdrop (Suc 0) s" by simp
    ultimately show ?thesis using False by blast
  qed
qed

lemma last_reply_append:
  "last_reply (xs @ ys) = (case last_reply ys of Some r \<Rightarrow> Some r | None \<Rightarrow> last_reply xs)"
  by (induction xs) (simp_all split: option.split)

lemma last_reply_snoc [simp]:
  "last_reply (xs @ [Syscall c r]) = Some r"
  "last_reply (xs @ [FindFile p b l]) = last_reply xs"
  "last_reply (xs @ [GFree p]) = last_reply xs"
  by (simp_all add: last_reply_append)

lemma settled_fields [simp]:
  "errno (settled c n r k w) = errno_after r (if n = 0 then errno w else EINTR)"
  "kernel (settled c n r k w) = k"
  "trace (settled c n r k w) = trace w @ replicate n (Syscall c (Failed EINTR)) @ [Syscall c r]"
  "mono_io_portability_helpers (settled c n r k w) = mono_io_portability_helpers w"
  "find_file (settled c n r k w) = find_file w"
  by (simp_all add: settled_def)

lemma IS_PORTABILITY_SET_settled [simp]:
  "IS_PORTABILITY_SET cfg (settled c n r k w) = IS_PORTABILITY_SET cfg w"
  by (simp add: IS_PORTABILITY_SET_def)

lemma retry_not_interrupted:
  assumes "retry c w = Some (res, w')"
  shows "\<not> CheckInterrupted res w'"
proof -
  from assms obtain n r k where r: "r \<noteq> Failed EINTR"
    and res: "res = result_of r" and w': "w' = settled c n r k w"
    by (rule retry_SomeD)
  then show ?thesis
    by (cases r) (simp_all add: CheckInterrupted_def)
qed

lemma retry_last_reply:
  assumes "retry c w = Some (res, w')"
  shows "(res = 0 \<and> last_reply (trace w') = Some Done) \<or>
         (res = - 1 \<and> last_reply (trace w') = Some (Failed (errno w')))"
proof -
  from assms obtain n r k where r: "r \<noteq> Failed EINTR"
    and res: "res = result_of r" and w': "w' = settled c n r k w"
    by (rule retry_SomeD)
  have "last_reply (trace w') = Some r"
    unfolding w' settled_fields by (simp only: append_assoc [symmetric] last_reply_snoc)
  then show ?thesis
    using res w' by (cases r) simp_all
qed

lemma set_times_direct:
  assumes k: "kernel w = replicate n (Failed EINTR) @- r ## k"
    and r: "r \<noteq> Failed EINTR"
    and nf: "r \<noteq> Failed ENOENT \<or> \<not> IS_PORTABILITY_SET cfg w"
  shows "set_times cfg mk path w = Some (result_of r, settled (mk path) n r k w)"
proof -
  have loop: "retry (mk path) w = Some (result_of r, settled (mk path) n r k w)"
    using k r by (rule retry_shift)
  have "\<not> (result_of r = - 1 \<and> errno (settled (mk path) n r k w) = ENOENT
            \<and> IS_PORTABILITY_SET cfg (settled (mk path) n r k w))"
    using nf r by (cases r) auto
  then show ?thesis
    unfolding set_times_def loop by (simp only: option.case prod.case if_False)
qed

lemma set_times_settles:
  assumes k: "kernel w = replicate n (Failed EINTR) @- r ## k"
    and r: "r \<noteq> Failed EINTR"
    and nf: "r \<noteq> Failed ENOENT \<or> \<not> IS_PORTABILITY_SET cfg w"
  shows "\<exists>w'. set_times cfg mk path w = Some (result_of r, w') \<and>
           (\<forall>e. r = Failed e \<longrightarrow> errno w' = e) \<and> kernel w' = k \<and>
           trace w' = trace w @ replicate n (Syscall (mk path) (Failed EINTR))
             @ [Syscall (mk path) r]"
proof -
  have "set_times cfg mk path w = Some (result_of r, settled (mk path) n r k w)"
    using k r nf by (rule set_times_direct)
  moreover have "\<forall>e. r = Failed e \<longrightarrow> errno (settled (mk path) n r k w) = e"
    by simp
  ultimately show ?thesis
    by (intro exI [of _ "settled (mk path) n r k w"]) simp
qed

lemma set_times_no_match:
  assumes k: "kernel w = replicate n (Failed EINTR) @- Failed ENOENT ## k"
    and set: "IS_PORTABILITY_SET cfg w"
    and none: "fst (find_file w path True) = None"
  shows "\<exists>w'. set_times cfg mk path w = Some (- 1, w') \<and> errno w' = ENOENT \<and>
           kernel w' = k \<and>
           trace w' = trace w @ replicate n (Syscall (mk path) (Failed EINTR))
             @ [Syscall (mk path) (Failed ENOENT), FindFile path True None]"
proof -
  let ?w1 = "settled (mk path) n (Failed ENOENT) k w"
  have neq: "Failed ENOENT \<noteq> Failed EINTR"
    by (simp add: ENOENT_def EINTR_def)
  have loop: "retry (mk path) w = Some (result_of (Failed ENOENT), ?w1)"
    using k neq by (rule retry_shift)
  have on: "\<not> DISABLE_PORTABILITY cfg"
    using set by (auto simp: IS_PORTABILITY_SET_def)
  obtain e where ff: "find_file w path True = (None, e)"
    using none by (cases "find_file w path True") simp
  show ?thesis
    unfolding set_times_def loop
    using set on ff by (simp add: mono_portability_find_file_def)
qed

lemma set_times_located:
  assumes k: "kernel w = replicate n (Failed EINTR) @- Failed ENOENT
                ## replicate m (Failed EINTR) @- r ## k"
    and r: "r \<noteq> Failed EINTR"
    and set: "IS_PORTABILITY_SET cfg w"
    and some: "fst (find_file w path True) = Some located"
  shows "\<exists>w'. set_times cfg mk path w = Some (result_of r, w') \<and>
           (\<forall>e. r = Failed e \<longrightarrow> errno w' = e) \<and> kernel w' = k \<and>
           trace w' = trace w @ replicate n (Syscall (mk path) (Failed EINTR))
             @ [Syscall (mk path) (Failed ENOENT), FindFile path True (Some located)]
             @ replicate m (Syscall (mk located) (Failed EINTR))
             @ [Syscall (mk located) r, GFree located]"
proof -
  let ?k1 = "replicate m (Failed EINTR) @- r ## k"
  let ?w1 = "settled (mk path) n (Failed ENOENT) ?k1 w"
  have neq: "Failed ENOENT \<noteq> Failed EINTR"
    by (simp add: ENOENT_def EINTR_def)
  have loop: "retry (mk path) w = Some (result_of (Failed ENOENT), ?w1)"
    using k neq by (rule retry_shift)
  have on: "\<not> DISABLE_PORTABILITY cfg"
    using set by (auto simp: IS_PORTABILITY_SET_def)
  obtain e where ff: "find_file w path True = (Some located, e)"
    using some by (cases "find_file w path True") simp
  obtain w2 where look: "mono_portability_find_file cfg path True ?w1 = (Some located, w2)"
    and k2: "kernel w2 = ?k1"
    and t2: "trace w2 = trace ?w1 @ [FindFile path True (Some located)]"
    using on ff by (simp add: mono_portability_find_file_def)
  have again: "retry (mk located) w2 = Some (result_of r, settled (mk located) m r k w2)"
    using k2 r by (rule retry_shift)
  show ?thesis
    unfolding set_times_def loop
    using set look again t2 by (cases r) (simp_all add: g_free_def)
qed

lemma set_times_not_interrupted:
  assumes "set_times cfg mk path w = Some (res, w')"
  shows "\<not> CheckInterrupted res w'"
proof -
  obtain r1 w1 where loop: "retry (mk path) w = Some (r1, w1)"
    using assms by (auto simp: set_times_def split: option.splits)
  show ?thesis
  proof (cases "r1 = - 1 \<and> errno w1 = ENOENT \<and> IS_PORTABILITY_SET cfg w1")
    case False
    then have "res = r1" "w' = w1"
      using assms loop by (auto simp: set_times_def)
    then show ?thesis
      using loop by (simp add: retry_not_interrupted)
  next
    case True
    obtain l w2 where look: "mono_portability_find_file cfg path True w1 = (l, w2)"
      by (cases "mono_portability_find_file cfg path True w1")
    show ?thesis
    proof (cases l)
      case None
      then have "errno w' = ENOENT"
        using assms loop True look by (auto simp: set_times_def)
      then show ?thesis
        by (simp add: CheckInterrupted_def ENOENT_def EINTR_def)
    next
      case (Some located)
      then obtain w3 where "retry (mk located) w2 = Some (res, w3)" and "w' = g_free located w3"
        using assms loop True look by (auto simp: set_times_def split: option.splits)
      then show ?thesis
        using retry_not_interrupted [of "mk located" w2 res w3]
        by (simp add: CheckInterrupted_def g_free_def)
    qed
  qed
qed

lemma set_times_last_reply:
  assumes "set_times cfg mk path w = Some (res, w')"
  shows "(res = 0 \<and> last_reply (trace w') = Some Done) \<or>
         (res = - 1 \<and> last_reply (trace w') = Some (Failed (errno w')))"
proof -
  obtain r1 w1 where loop: "retry (mk path) w = Some (r1, w1)"
    using assms by (auto simp: set_times_def split: option.splits)
  show ?thesis
  proof (cases "r1 = - 1 \<and> errno w1 = ENOENT \<and> IS_PORTABILITY_SET cfg w1")
    case False
    then have "res = r1" "w' = w1"
      using assms loop by (auto simp: set_times_def)
    then show ?thesis
      using loop by (simp add: retry_last_reply)
  next
    case True
    obtain l w2 where look: "mono_portability_find_file cfg path True w1 = (l, w2)"
      by (cases "mono_portability_find_file cfg path True w1")
    have on: "\<not> DISABLE_PORTABILITY cfg"
      using True by (auto simp: IS_PORTABILITY_SET_def)
    show ?thesis
    proof (cases l)
      case None
      have "last_reply (trace w1) = Some (Failed (errno w1))"
        using retry_last_reply [OF loop] True by simp
      moreover have "res = - 1" "errno w' = errno w1"
        "trace w' = trace w1 @ [FindFile path True None]"
        using assms loop True look None on
        by (auto simp: set_times_def mono_portability_find_file_def split: prod.splits)
      ultimately show ?thesis by simp
    next
      case (Some located)
      then obtain w3 where "retry (mk located) w2 = Some (res, w3)" and "w' = g_free located w3"
        using assms loop True look by (auto simp: set_times_def split: option.splits)
      then show ?thesis
        using retry_last_reply [of "mk located" w2 res w3]
        by (simp add: g_free_def)
    qed
  qed
qed

lemma retry_returns:
  assumes "kernel w !! n \<noteq> Failed EINTR"
  shows "\<exists>res w' m. retry c w = Some (res, w') \<and> kernel w' = sdrop (Suc m) (kernel w)
           \<and> mono_io_portability_helpers w' = mono_io_portability_helpers w
           \<and> find_file w' = find_file w"
proof -
  obtain m r k where k: "kernel w = replicate m (Failed EINTR) @- r ## k"
    and r: "r \<noteq> Failed EINTR" and d: "k = sdrop (Suc m) (kernel w)"
    using first_definitive [OF assms] by blast
  have "retry c w = Some (result_of r, settled c m r k w)"
    using k r by (rule retry_shift)
  then show ?thesis
    using d by (intro exI [of _ "result_of r"] exI [of _ "settled c m r k w"] exI [of _ m]) simp
qed

lemma set_times_returns:
  assumes fair: "\<forall>m. \<exists>n. kernel w !! (m + n) \<noteq> Failed EINTR"
  shows "set_times cfg mk path w \<noteq> None"
proof -
  obtain n0 where "kernel w !! n0 \<noteq> Failed EINTR"
    using fair [rule_format, of 0] by auto
  then obtain r1 w1 m where loop: "retry (mk path) w = Some (r1, w1)"
    and k1: "kernel w1 = sdrop (Suc m) (kernel w)"
    using retry_returns by blast
  show ?thesis
  proof (cases "r1 = - 1 \<and> errno w1 = ENOENT \<and> IS_PORTABILITY_SET cfg w1")
    case False
    then show ?thesis
      using loop by (auto simp: set_times_def)
  next
    case True
    obtain l w2 where look: "mono_portability_find_file cfg path True w1 = (l, w2)"
      by (cases "mono_portability_find_file cfg path True w1")
    then have k2: "kernel w2 = kernel w1"
      by (auto simp: mono_portability_find_file_def split: if_splits prod.splits)
    show ?thesis
    proof (cases l)
      case None
      then show ?thesis
        using loop True look by (auto simp: set_times_def)
    next
      case (Some located)
      obtain n1 where "kernel w !! (Suc m + n1) \<noteq> Failed EINTR"
        using fair by blast
      then have "kernel w2 !! n1 \<noteq> Failed EINTR"
        using k1 k2 by (simp add: sdrop_snth)
      then obtain r3 w3 where "retry (mk located) w2 = Some (r3, w3)"
        using retry_returns by blast
      then show ?thesis
        using loop True look Some by (auto simp: set_times_def)
    qed
  qed
qed

lemma set_times_spins:
  assumes "\<forall>n. kernel w !! n = Failed EINTR"
  shows "set_times cfg mk path w = None"
proof -
  have "retry (mk path) w = None"
  proof (rule ccontr)
    assume "retry (mk path) w \<noteq> None"
    then obtain y where "retry (mk path) w = Some y" by auto
    then obtain n r k where k: "kernel w = replicate n (Failed EINTR) @- r ## k"
      and r: "r \<noteq> Failed EINTR"
      using retry_kernel_shape by blast
    have "kernel w !! n = r"
      unfolding k by (simp add: shift_snth_ge)
    with r assms show False by simp
  qed
  then show ?thesis
    by (simp add: set_times_def)
qed

section \<open>Timestamps as machine words\<close>

lemma uint_of_nonneg:
  fixes x :: "64 word"
  assumes nn: "0 \<le> sint x"
  shows "uint x = sint x"
proof -
  have "sint x < 2 ^ 64"
    using sint_lt [of x] by simp
  then have "take_bit 64 (sint x) = sint x"
    using nn by (simp add: take_bit_int_eq_self)
  then show ?thesis
    using uint_sint [of x] by simp
qed

lemma ticks_exact:
  fixes s n k :: "64 word"
  assumes "0 \<le> sint s" "0 \<le> sint n" "sint s * uint k + sint n < 2 ^ 64"
  shows "uint (s * k + n) = sint s * uint k + sint n"
proof -
  have s: "uint s = sint s" and n: "uint n = sint n"
    using assms by (simp_all add: uint_of_nonneg)
  have "uint (s * k + n) = (uint s * uint k + uint n) mod 2 ^ 64"
    by (simp add: uint_word_ariths mod_simps)
  also have "\<dots> = sint s * uint k + sint n"
    using assms s n by (simp add: mod_pos_pos_trivial)
  finally show ?thesis .
qed

lemma ticks_mono:
  fixes s1 n1 s2 n2 k :: "64 word"
  assumes nn: "0 \<le> sint s1" "0 \<le> sint n1" "0 \<le> sint s2" "0 \<le> sint n2"
    and fit: "sint s1 * uint k + sint n1 < 2 ^ 64" "sint s2 * uint k + sint n2 < 2 ^ 64"
    and frac: "sint n1 < uint k"
    and le: "sint s1 < sint s2 \<or> (sint s1 = sint s2 \<and> sint n1 \<le> sint n2)"
  shows "s1 * k + n1 \<le> s2 * k + n2"
proof -
  have e1: "uint (s1 * k + n1) = sint s1 * uint k + sint n1"
    using nn fit by (simp add: ticks_exact)
  have e2: "uint (s2 * k + n2) = sint s2 * uint k + sint n2"
    using nn fit by (simp add: ticks_exact)
  have "sint s1 * uint k + sint n1 \<le> sint s2 * uint k + sint n2"
    using le
  proof
    assume lt: "sint s1 < sint s2"
    then have "sint s1 + 1 \<le> sint s2" by simp
    then have "(sint s1 + 1) * uint k \<le> sint s2 * uint k"
      by (rule mult_right_mono) simp
    then show ?thesis
      using frac nn by (simp add: algebra_simps)
  next
    assume "sint s1 = sint s2 \<and> sint n1 \<le> sint n2"
    then show ?thesis by simp
  qed
  then show ?thesis
    using e1 e2 by (simp add: word_le_def)
qed

lemma calm_kernel: "sconst Done = replicate 0 (Failed EINTR) @- Done ## sconst Done"
  by (subst siterate.ctr) simp

section \<open>The claims\<close>

subsection \<open>Setting file times\<close>

text \<open>
  \<^bold>\<open>C1\<close>, as amended. A call to \<^verbatim>\<open>SystemNative_UTime\<close> or \<^verbatim>\<open>SystemNative_UTimes\<close> that
  returns gives back the result of the last system call it made: 0 when that call
  succeeded, and -1 when it failed, with the error number of that call in \<^verbatim>\<open>errno\<close>. The
  value 1 is never returned.
\<close>

theorem SetFileTimes_result_is_syscall_result:
  "(\<forall>res w'. SystemNative_UTime cfg path tms w = Some (res, w') \<longrightarrow>
      (res = 0 \<and> last_reply (trace w') = Some Done) \<or>
      (res = - 1 \<and> last_reply (trace w') = Some (Failed (errno w')))) \<and>
   (\<forall>res w'. SystemNative_UTimes cfg path tvs w = Some (res, w') \<longrightarrow>
      (res = 0 \<and> last_reply (trace w') = Some Done) \<or>
      (res = - 1 \<and> last_reply (trace w') = Some (Failed (errno w'))))"
  unfolding UTime_set_times UTimes_set_times
  by (blast dest: set_times_last_reply)

text \<open>The theorem at a call that fails with \<^verbatim>\<open>EACCES\<close>.\<close>

theorem SetFileTimes_result_is_syscall_result_witness:
  "SystemNative_UTime posix_build ''/tmp/a'' \<lparr>AcTime = 1, ModTime = 2\<rparr>
     (calm_world\<lparr>kernel := Failed 13 ## sconst Done\<rparr>)
   = Some (- 1, calm_world\<lparr>errno := 13, kernel := sconst Done,
        trace := [Syscall (Utime ''/tmp/a'' \<lparr>actime = 1, modtime = 2\<rparr>) (Failed 13)]\<rparr>) \<and>
   last_reply [Syscall (Utime ''/tmp/a'' \<lparr>actime = 1, modtime = 2\<rparr>) (Failed 13)]
   = Some (Failed 13)"
proof -
  let ?w = "calm_world\<lparr>kernel := Failed 13 ## sconst Done\<rparr>"
  let ?w' = "calm_world\<lparr>errno := 13, kernel := sconst Done,
        trace := [Syscall (Utime ''/tmp/a'' \<lparr>actime = 1, modtime = 2\<rparr>) (Failed 13)]\<rparr>"
  have k: "kernel ?w = replicate 0 (Failed EINTR) @- Failed 13 ## sconst Done"
    by simp
  have run: "SystemNative_UTime posix_build ''/tmp/a'' \<lparr>AcTime = 1, ModTime = 2\<rparr> ?w
             = Some (- 1, ?w')"
    unfolding UTime_set_times
    by (subst set_times_direct [OF k])
      (simp_all add: EINTR_def ENOENT_def settled_def calm_world_def ConvertUTimBuf_def)
  from SetFileTimes_result_is_syscall_result [THEN conjunct1, rule_format, OF run] run
  show ?thesis by (simp add: calm_world_def)
qed

text \<open>
  The claim as stated asks for 1 on success. On a kernel that sets the times at once,
  \<^verbatim>\<open>SystemNative_UTimes\<close> returns 0.
\<close>

theorem SetFileTimes_success_counterexample:
  "map_option fst
     (SystemNative_UTimes posix_build ''/tmp/a''
        \<lparr>AcTimeSec = 1, AcTimeUSec = 0, ModTimeSec = 2, ModTimeUSec = 0\<rparr> calm_world)
   = Some 0 \<and>
   map_option (last_reply \<circ> trace \<circ> snd)
     (SystemNative_UTimes posix_build ''/tmp/a''
        \<lparr>AcTimeSec = 1, AcTimeUSec = 0, ModTimeSec = 2, ModTimeUSec = 0\<rparr> calm_world)
   = Some (Some Done)"
proof -
  have k: "kernel calm_world = replicate 0 (Failed EINTR) @- Done ## sconst Done"
    unfolding calm_world_def using calm_kernel by simp
  show ?thesis
    unfolding UTimes_set_times
    by (subst set_times_direct [OF k], simp, simp, subst set_times_direct [OF k])
      (simp_all add: settled_def calm_world_def)
qed

text \<open>
  \<^bold>\<open>C3\<close>. The first system call, after any number of interruptions, fails with \<^verbatim>\<open>ENOENT\<close>;
  the fallback is switched on; the lookup finds nothing. Then both entry points return -1
  and \<^verbatim>\<open>errno\<close> is \<^verbatim>\<open>ENOENT\<close> again, whatever the lookup stored there.
\<close>

theorem SetFileTimes_no_match_restores_ENOENT:
  assumes "kernel w = replicate n (Failed EINTR) @- Failed ENOENT ## k"
    and "IS_PORTABILITY_SET cfg w"
    and "fst (find_file w path True) = None"
  shows "(\<exists>w'. SystemNative_UTime cfg path tms w = Some (- 1, w') \<and> errno w' = ENOENT) \<and>
         (\<exists>w'. SystemNative_UTimes cfg path tvs w = Some (- 1, w') \<and> errno w' = ENOENT)"
proof
  show "\<exists>w'. SystemNative_UTime cfg path tms w = Some (- 1, w') \<and> errno w' = ENOENT"
    unfolding UTime_set_times using set_times_no_match [OF assms] by blast
  show "\<exists>w'. SystemNative_UTimes cfg path tvs w = Some (- 1, w') \<and> errno w' = ENOENT"
    unfolding UTimes_set_times using set_times_no_match [OF assms] by blast
qed

text \<open>
  The theorem at a lookup that leaves \<^verbatim>\<open>EACCES\<close> (13) behind: the caller still sees
  \<^verbatim>\<open>ENOENT\<close> (2).
\<close>

theorem SetFileTimes_no_match_restores_ENOENT_witness:
  "snd (find_file calm_world ''/tmp/a'' True) = Some 13 \<and>
   map_option fst
     (SystemNative_UTime posix_build ''/tmp/a'' \<lparr>AcTime = 1, ModTime = 2\<rparr>
        (calm_world\<lparr>mono_io_portability_helpers := PORTABILITY_CASE,
                    kernel := Failed EINTR ## Failed ENOENT ## sconst Done\<rparr>))
   = Some (- 1) \<and>
   map_option (errno \<circ> snd)
     (SystemNative_UTime posix_build ''/tmp/a'' \<lparr>AcTime = 1, ModTime = 2\<rparr>
        (calm_world\<lparr>mono_io_portability_helpers := PORTABILITY_CASE,
                    kernel := Failed EINTR ## Failed ENOENT ## sconst Done\<rparr>))
   = Some 2"
proof -
  let ?w = "calm_world\<lparr>mono_io_portability_helpers := PORTABILITY_CASE,
                       kernel := Failed EINTR ## Failed ENOENT ## sconst Done\<rparr>"
  have k: "kernel ?w = replicate (Suc 0) (Failed EINTR) @- Failed ENOENT ## sconst Done"
    by simp
  have p: "IS_PORTABILITY_SET posix_build ?w"
    by (simp add: IS_PORTABILITY_SET_def posix_build_def PORTABILITY_CASE_def)
  have f: "fst (find_file ?w ''/tmp/a'' True) = None"
    by (simp add: calm_world_def lookup_none_def)
  from SetFileTimes_no_match_restores_ENOENT [OF k p f,
      where tms = "\<lparr>AcTime = 1, ModTime = 2\<rparr>"
        and tvs = "\<lparr>AcTimeSec = 1, AcTimeUSec = 0, ModTimeSec = 2, ModTimeUSec = 0\<rparr>"]
  show ?thesis
    by (auto simp: ENOENT_def calm_world_def lookup_none_def)
qed

text \<open>
  \<^bold>\<open>C4\<close>. An interrupted system call is never reported, and every interrupted call is issued
  again until the kernel gives a reply that is not an interruption:
  \<^item> whatever an entry point returns is not an interruption;
  \<^item> it returns whenever the kernel does not interrupt for ever, and on a kernel that
    interrupts every call it retries without end and reports nothing;
  \<^item> when the first call is interrupted \<open>n\<close> times and then gets the reply \<open>r\<close>, and the
    fallback is not entered, the call was issued \<open>n + 1\<close> times on the path, exactly those
    replies were consumed, and the return value and \<^verbatim>\<open>errno\<close> are those of \<open>r\<close>;
  \<^item> the same holds for the first call when the lookup then finds nothing;
  \<^item> when the lookup finds a name and the call on that name is interrupted \<open>m\<close> times and
    then gets the reply \<open>r\<close>, that call was issued \<open>m + 1\<close> times on the located name, after
    the \<open>n + 1\<close> calls on the path, and the return value and \<^verbatim>\<open>errno\<close> are those of \<open>r\<close>.
\<close>

theorem SetFileTimes_never_reports_EINTR:
  "(\<forall>res w'. SystemNative_UTime cfg path tms w = Some (res, w') \<longrightarrow>
      \<not> CheckInterrupted res w') \<and>
   (\<forall>res w'. SystemNative_UTimes cfg path tvs w = Some (res, w') \<longrightarrow>
      \<not> CheckInterrupted res w') \<and>
   ((\<forall>m. \<exists>n. kernel w !! (m + n) \<noteq> Failed EINTR) \<longrightarrow>
      SystemNative_UTime cfg path tms w \<noteq> None \<and>
      SystemNative_UTimes cfg path tvs w \<noteq> None) \<and>
   ((\<forall>n. kernel w !! n = Failed EINTR) \<longrightarrow>
      SystemNative_UTime cfg path tms w = None \<and>
      SystemNative_UTimes cfg path tvs w = None) \<and>
   (kernel w = replicate n (Failed EINTR) @- r ## k \<and> r \<noteq> Failed EINTR \<and>
    (r \<noteq> Failed ENOENT \<or> \<not> IS_PORTABILITY_SET cfg w) \<longrightarrow>
      (\<exists>w'. SystemNative_UTime cfg path tms w = Some (result_of r, w') \<and>
         (\<forall>e. r = Failed e \<longrightarrow> errno w' = e) \<and> kernel w' = k \<and>
         trace w' = trace w
           @ replicate n (Syscall (Utime path (ConvertUTimBuf tms)) (Failed EINTR))
           @ [Syscall (Utime path (ConvertUTimBuf tms)) r]) \<and>
      (\<exists>w'. SystemNative_UTimes cfg path tvs w = Some (result_of r, w') \<and>
         (\<forall>e. r = Failed e \<longrightarrow> errno w' = e) \<and> kernel w' = k \<and>
         trace w' = trace w
           @ replicate n (Syscall (Utimes path (ConvertTimeValPair tvs)) (Failed EINTR))
           @ [Syscall (Utimes path (ConvertTimeValPair tvs)) r])) \<and>
   (kernel w = replicate n (Failed EINTR) @- Failed ENOENT ## k \<and>
    IS_PORTABILITY_SET cfg w \<and> fst (find_file w path True) = None \<longrightarrow>
      (\<exists>w'. SystemNative_UTime cfg path tms w = Some (- 1, w') \<and>
         errno w' = ENOENT \<and> kernel w' = k \<and>
         trace w' = trace w
           @ replicate n (Syscall (Utime path (ConvertUTimBuf tms)) (Failed EINTR))
           @ [Syscall (Utime path (ConvertUTimBuf tms)) (Failed ENOENT),
              FindFile path True None]) \<and>
      (\<exists>w'. SystemNative_UTimes cfg path tvs w = Some (- 1, w') \<and>
         errno w' = ENOENT \<and> kernel w' = k \<and>
         trace w' = trace w
           @ replicate n (Syscall (Utimes path (ConvertTimeValPair tvs)) (Failed EINTR))
           @ [Syscall (Utimes path (ConvertTimeValPair tvs)) (Failed ENOENT),
              FindFile path True None])) \<and>
   (kernel w = replicate n (Failed EINTR) @- Failed ENOENT
      ## replicate m (Failed EINTR) @- r ## k \<and> r \<noteq> Failed EINTR \<and>
    IS_PORTABILITY_SET cfg w \<and> fst (find_file w path True) = Some located \<longrightarrow>
      (\<exists>w'. SystemNative_UTime cfg path tms w = Some (result_of r, w') \<and>
         (\<forall>e. r = Failed e \<longrightarrow> errno w' = e) \<and> kernel w' = k \<and>
         trace w' = trace w
           @ replicate n (Syscall (Utime path (ConvertUTimBuf tms)) (Failed EINTR))
           @ [Syscall (Utime path (ConvertUTimBuf tms)) (Failed ENOENT),
              FindFile path True (Some located)]
           @ replicate m (Syscall (Utime located (ConvertUTimBuf tms)) (Failed EINTR))
           @ [Syscall (Utime located (ConvertUTimBuf tms)) r, GFree located]) \<and>
      (\<exists>w'. SystemNative_UTimes cfg path tvs w = Some (result_of r, w') \<and>
         (\<forall>e. r = Failed e \<longrightarrow> errno w' = e) \<and> kernel w' = k \<and>
         trace w' = trace w
           @ replicate n (Syscall (Utimes path (ConvertTimeValPair tvs)) (Failed EINTR))
           @ [Syscall (Utimes path (ConvertTimeValPair tvs)) (Failed ENOENT),
              FindFile path True (Some located)]
           @ replicate m (Syscall (Utimes located (ConvertTimeValPair tvs)) (Failed EINTR))
           @ [Syscall (Utimes located (ConvertTimeValPair tvs)) r, GFree located]))"
proof -
  have safe: "\<not> CheckInterrupted res w'"
    if "set_times cfg mk path w = Some (res, w')" for mk res w'
    using that by (rule set_times_not_interrupted)
  have live: "set_times cfg mk path w \<noteq> None"
    if "\<forall>m. \<exists>n. kernel w !! (m + n) \<noteq> Failed EINTR" for mk
    using that by (rule set_times_returns)
  have spin: "set_times cfg mk path w = None"
    if "\<forall>n. kernel w !! n = Failed EINTR" for mk
    using that by (rule set_times_spins)
  have direct: "\<exists>w'. set_times cfg mk path w = Some (result_of r, w') \<and>
      (\<forall>e. r = Failed e \<longrightarrow> errno w' = e) \<and> kernel w' = k \<and>
      trace w' = trace w @ replicate n (Syscall (mk path) (Failed EINTR))
        @ [Syscall (mk path) r]"
    if "kernel w = replicate n (Failed EINTR) @- r ## k \<and> r \<noteq> Failed EINTR \<and>
        (r \<noteq> Failed ENOENT \<or> \<not> IS_PORTABILITY_SET cfg w)" for mk
    using that by (intro set_times_settles) simp_all
  have nomatch: "\<exists>w'. set_times cfg mk path w = Some (- 1, w') \<and> errno w' = ENOENT \<and>
      kernel w' = k \<and>
      trace w' = trace w @ replicate n (Syscall (mk path) (Failed EINTR))
        @ [Syscall (mk path) (Failed ENOENT), FindFile path True None]"
    if "kernel w = replicate n (Failed EINTR) @- Failed ENOENT ## k \<and>
        IS_PORTABILITY_SET cfg w \<and> fst (find_file w path True) = None" for mk
    using that by (intro set_times_no_match) simp_all
  have found: "\<exists>w'. set_times cfg mk path w = Some (result_of r, w') \<and>
      (\<forall>e. r = Failed e \<longrightarrow> errno w' = e) \<and> kernel w' = k \<and>
      trace w' = trace w @ replicate n (Syscall (mk path) (Failed EINTR))
        @ [Syscall (mk path) (Failed ENOENT), FindFile path True (Some located)]
        @ replicate m (Syscall (mk located) (Failed EINTR))
        @ [Syscall (mk located) r, GFree located]"
    if "kernel w = replicate n (Failed EINTR) @- Failed ENOENT
          ## replicate m (Failed EINTR) @- r ## k \<and> r \<noteq> Failed EINTR \<and>
        IS_PORTABILITY_SET cfg w \<and> fst (find_file w path True) = Some located" for mk
    using that by (intro set_times_located) simp_all
  note u = UTime_set_times UTimes_set_times
  have c1: "\<forall>res w'. SystemNative_UTime cfg path tms w = Some (res, w') \<longrightarrow>
      \<not> CheckInterrupted res w'"
    unfolding u using safe by blast
  have c2: "\<forall>res w'. SystemNative_UTimes cfg path tvs w = Some (res, w') \<longrightarrow>
      \<not> CheckInterrupted res w'"
    unfolding u using safe by blast
  have c3: "(\<forall>m. \<exists>n. kernel w !! (m + n) \<noteq> Failed EINTR) \<longrightarrow>
      SystemNative_UTime cfg path tms w \<noteq> None \<and>
      SystemNative_UTimes cfg path tvs w \<noteq> None"
    unfolding u using live by blast
  have c4: "(\<forall>n. kernel w !! n = Failed EINTR) \<longrightarrow>
      SystemNative_UTime cfg path tms w = None \<and>
      SystemNative_UTimes cfg path tvs w = None"
    unfolding u using spin by blast
  show ?thesis
    apply (intro conjI c1 c2 c3 c4)
    subgoal
      unfolding u
      using direct [of "\<lambda>p. Utime p (ConvertUTimBuf tms)"]
        direct [of "\<lambda>p. Utimes p (ConvertTimeValPair tvs)"]
      by simp
    subgoal
      unfolding u
      using nomatch [of "\<lambda>p. Utime p (ConvertUTimBuf tms)"]
        nomatch [of "\<lambda>p. Utimes p (ConvertTimeValPair tvs)"]
      by simp
    subgoal
      unfolding u
      using found [of "\<lambda>p. Utime p (ConvertUTimBuf tms)"]
        found [of "\<lambda>p. Utimes p (ConvertTimeValPair tvs)"]
      by simp
    done
qed

text \<open>
  The theorem at a kernel that interrupts the first call once and the call on the located
  name twice: five system calls, and the result of the last one.
\<close>

theorem SetFileTimes_never_reports_EINTR_witness:
  "map_option fst
     (SystemNative_UTime posix_build ''/tmp/a'' \<lparr>AcTime = 1, ModTime = 2\<rparr>
        (calm_world\<lparr>mono_io_portability_helpers := PORTABILITY_CASE,
                    kernel := Failed EINTR ## Failed ENOENT ## Failed EINTR ## Failed EINTR
                      ## Done ## sconst (Failed 13),
                    find_file := lookup_upper\<rparr>))
   = Some 0 \<and>
   map_option (kernel \<circ> snd)
     (SystemNative_UTime posix_build ''/tmp/a'' \<lparr>AcTime = 1, ModTime = 2\<rparr>
        (calm_world\<lparr>mono_io_portability_helpers := PORTABILITY_CASE,
                    kernel := Failed EINTR ## Failed ENOENT ## Failed EINTR ## Failed EINTR
                      ## Done ## sconst (Failed 13),
                    find_file := lookup_upper\<rparr>))
   = Some (sconst (Failed 13)) \<and>
   map_option (trace \<circ> snd)
     (SystemNative_UTime posix_build ''/tmp/a'' \<lparr>AcTime = 1, ModTime = 2\<rparr>
        (calm_world\<lparr>mono_io_portability_helpers := PORTABILITY_CASE,
                    kernel := Failed EINTR ## Failed ENOENT ## Failed EINTR ## Failed EINTR
                      ## Done ## sconst (Failed 13),
                    find_file := lookup_upper\<rparr>))
   = Some
       [Syscall (Utime ''/tmp/a'' \<lparr>actime = 1, modtime = 2\<rparr>) (Failed EINTR),
        Syscall (Utime ''/tmp/a'' \<lparr>actime = 1, modtime = 2\<rparr>) (Failed ENOENT),
        FindFile ''/tmp/a'' True (Some ''/TMP/A''),
        Syscall (Utime ''/TMP/A'' \<lparr>actime = 1, modtime = 2\<rparr>) (Failed EINTR),
        Syscall (Utime ''/TMP/A'' \<lparr>actime = 1, modtime = 2\<rparr>) (Failed EINTR),
        Syscall (Utime ''/TMP/A'' \<lparr>actime = 1, modtime = 2\<rparr>) Done,
        GFree ''/TMP/A'']"
proof -
  let ?w = "calm_world\<lparr>mono_io_portability_helpers := PORTABILITY_CASE,
                    kernel := Failed EINTR ## Failed ENOENT ## Failed EINTR ## Failed EINTR
                      ## Done ## sconst (Failed 13),
                    find_file := lookup_upper\<rparr>"
  have shape: "kernel ?w = replicate (Suc 0) (Failed EINTR) @- Failed ENOENT
      ## replicate (Suc (Suc 0)) (Failed EINTR) @- Done ## sconst (Failed 13)"
    by simp
  have p: "IS_PORTABILITY_SET posix_build ?w"
    by (simp add: IS_PORTABILITY_SET_def posix_build_def PORTABILITY_CASE_def)
  have f: "fst (find_file ?w ''/tmp/a'' True) = Some ''/TMP/A''"
    by (simp add: lookup_upper_def)
  note inst = SetFileTimes_never_reports_EINTR
    [where cfg = posix_build and path = "''/tmp/a''"
       and tms = "\<lparr>AcTime = 1, ModTime = 2\<rparr>" and w = ?w
       and n = "Suc 0" and m = "Suc (Suc 0)" and r = Done
       and k = "sconst (Failed 13)" and located = "''/TMP/A''",
     THEN conjunct2, THEN conjunct2, THEN conjunct2, THEN conjunct2, THEN conjunct2,
     THEN conjunct2, THEN mp, THEN conjunct1]
  have "Done \<noteq> Failed EINTR"
    by simp
  with shape p f obtain w' where
    run: "SystemNative_UTime posix_build ''/tmp/a'' \<lparr>AcTime = 1, ModTime = 2\<rparr> ?w
          = Some (result_of Done, w')"
    and ker: "kernel w' = sconst (Failed 13)"
    and tr: "trace w' = trace ?w
           @ replicate (Suc 0)
               (Syscall (Utime ''/tmp/a'' (ConvertUTimBuf \<lparr>AcTime = 1, ModTime = 2\<rparr>))
                  (Failed EINTR))
           @ [Syscall (Utime ''/tmp/a'' (ConvertUTimBuf \<lparr>AcTime = 1, ModTime = 2\<rparr>))
                (Failed ENOENT),
              FindFile ''/tmp/a'' True (Some ''/TMP/A'')]
           @ replicate (Suc (Suc 0))
               (Syscall (Utime ''/TMP/A'' (ConvertUTimBuf \<lparr>AcTime = 1, ModTime = 2\<rparr>))
                  (Failed EINTR))
           @ [Syscall (Utime ''/TMP/A'' (ConvertUTimBuf \<lparr>AcTime = 1, ModTime = 2\<rparr>)) Done,
              GFree ''/TMP/A'']"
    using inst by blast
  show ?thesis
    unfolding run using ker tr by (simp add: calm_world_def ConvertUTimBuf_def)
qed

text \<open>
  \<^bold>\<open>C5\<close>. The first system call, after any number of interruptions, fails with an error \<open>e\<close>
  that is not \<^verbatim>\<open>ENOENT\<close>, or the fallback is switched off. Then both entry points return
  -1 with \<open>e\<close> in \<^verbatim>\<open>errno\<close>, and all they did was issue that one system call until it was no
  longer interrupted: the trace gains no lookup.
\<close>

theorem SetFileTimes_other_error_unchanged:
  assumes "kernel w = replicate n (Failed EINTR) @- Failed e ## k"
    and "e \<noteq> EINTR"
    and "e \<noteq> ENOENT \<or> \<not> IS_PORTABILITY_SET cfg w"
  shows "(\<exists>w'. SystemNative_UTime cfg path tms w = Some (- 1, w') \<and> errno w' = e \<and>
            trace w' = trace w
              @ replicate n (Syscall (Utime path (ConvertUTimBuf tms)) (Failed EINTR))
              @ [Syscall (Utime path (ConvertUTimBuf tms)) (Failed e)]) \<and>
         (\<exists>w'. SystemNative_UTimes cfg path tvs w = Some (- 1, w') \<and> errno w' = e \<and>
            trace w' = trace w
              @ replicate n (Syscall (Utimes path (ConvertTimeValPair tvs)) (Failed EINTR))
              @ [Syscall (Utimes path (ConvertTimeValPair tvs)) (Failed e)])"
proof -
  have r: "Failed e \<noteq> Failed EINTR"
    using assms(2) by simp
  have nf: "Failed e \<noteq> Failed ENOENT \<or> \<not> IS_PORTABILITY_SET cfg w"
    using assms(3) by simp
  show ?thesis
    unfolding UTime_set_times UTimes_set_times
    by (simp add: set_times_direct [OF assms(1) r nf])
qed

text \<open>The theorem at a call that is interrupted once and then fails with \<^verbatim>\<open>EACCES\<close>.\<close>

theorem SetFileTimes_other_error_unchanged_witness:
  "map_option fst
     (SystemNative_UTimes posix_build ''/tmp/a''
        \<lparr>AcTimeSec = 1, AcTimeUSec = 0, ModTimeSec = 2, ModTimeUSec = 0\<rparr>
        (calm_world\<lparr>mono_io_portability_helpers := PORTABILITY_CASE,
                    kernel := Failed EINTR ## Failed 13 ## sconst Done\<rparr>))
   = Some (- 1) \<and>
   map_option (errno \<circ> snd)
     (SystemNative_UTimes posix_build ''/tmp/a''
        \<lparr>AcTimeSec = 1, AcTimeUSec = 0, ModTimeSec = 2, ModTimeUSec = 0\<rparr>
        (calm_world\<lparr>mono_io_portability_helpers := PORTABILITY_CASE,
                    kernel := Failed EINTR ## Failed 13 ## sconst Done\<rparr>))
   = Some 13 \<and>
   map_option (length \<circ> trace \<circ> snd)
     (SystemNative_UTimes posix_build ''/tmp/a''
        \<lparr>AcTimeSec = 1, AcTimeUSec = 0, ModTimeSec = 2, ModTimeUSec = 0\<rparr>
        (calm_world\<lparr>mono_io_portability_helpers := PORTABILITY_CASE,
                    kernel := Failed EINTR ## Failed 13 ## sconst Done\<rparr>))
   = Some 2"
proof -
  let ?w = "calm_world\<lparr>mono_io_portability_helpers := PORTABILITY_CASE,
                       kernel := Failed EINTR ## Failed 13 ## sconst Done\<rparr>"
  have k: "kernel ?w = replicate (Suc 0) (Failed EINTR) @- Failed 13 ## sconst Done"
    by simp
  have e: "(13 :: int) \<noteq> EINTR"
    by (simp add: EINTR_def)
  have nf: "13 \<noteq> ENOENT \<or> \<not> IS_PORTABILITY_SET posix_build ?w"
    by (simp add: ENOENT_def)
  from SetFileTimes_other_error_unchanged [OF k e nf,
      where path = "''/tmp/a''" and tms = "\<lparr>AcTime = 1, ModTime = 2\<rparr>"
        and tvs = "\<lparr>AcTimeSec = 1, AcTimeUSec = 0, ModTimeSec = 2, ModTimeUSec = 0\<rparr>"]
  show ?thesis
    by (auto simp: calm_world_def)
qed

text \<open>
  \<^bold>\<open>C9\<close>. The first system call fails with \<^verbatim>\<open>ENOENT\<close>, the fallback is switched on and the
  lookup finds a name, and the system call on that name, after any number of
  interruptions, fails with the error \<open>e2\<close>. Then both entry points return -1 with \<open>e2\<close> in
  \<^verbatim>\<open>errno\<close>: the outcome of the second attempt, made on the located name.
\<close>

theorem SetFileTimes_second_attempt_reported:
  assumes "kernel w = replicate n (Failed EINTR) @- Failed ENOENT
             ## replicate m (Failed EINTR) @- Failed e2 ## k"
    and "e2 \<noteq> EINTR"
    and "IS_PORTABILITY_SET cfg w"
    and "fst (find_file w path True) = Some located"
  shows "(\<exists>w'. SystemNative_UTime cfg path tms w = Some (- 1, w') \<and> errno w' = e2 \<and>
            last_reply (trace w') = Some (Failed e2) \<and>
            Syscall (Utime located (ConvertUTimBuf tms)) (Failed e2) \<in> set (trace w')) \<and>
         (\<exists>w'. SystemNative_UTimes cfg path tvs w = Some (- 1, w') \<and> errno w' = e2 \<and>
            last_reply (trace w') = Some (Failed e2) \<and>
            Syscall (Utimes located (ConvertTimeValPair tvs)) (Failed e2) \<in> set (trace w'))"
proof -
  have r: "Failed e2 \<noteq> Failed EINTR"
    using assms(2) by simp
  have shape: "\<exists>w'. set_times cfg mk path w = Some (- 1, w') \<and> errno w' = e2 \<and>
      last_reply (trace w') = Some (Failed e2) \<and>
      Syscall (mk located) (Failed e2) \<in> set (trace w')" for mk
  proof -
    obtain w' where run: "set_times cfg mk path w = Some (result_of (Failed e2), w')"
      and err: "\<forall>e. Failed e2 = Failed e \<longrightarrow> errno w' = e"
      and tr: "trace w' = trace w @ replicate n (Syscall (mk path) (Failed EINTR))
             @ [Syscall (mk path) (Failed ENOENT), FindFile path True (Some located)]
             @ replicate m (Syscall (mk located) (Failed EINTR))
             @ [Syscall (mk located) (Failed e2), GFree located]"
      using set_times_located [OF assms(1) r assms(3) assms(4), of mk] by blast
    have "last_reply (trace w') = Some (Failed e2)"
      unfolding tr by (simp add: last_reply_append)
    moreover have "Syscall (mk located) (Failed e2) \<in> set (trace w')"
      unfolding tr by simp
    ultimately show ?thesis
      using run err by auto
  qed
  show ?thesis
    unfolding UTime_set_times UTimes_set_times
    using shape [of "\<lambda>p. Utime p (ConvertUTimBuf tms)"]
      shape [of "\<lambda>p. Utimes p (ConvertTimeValPair tvs)"]
    by simp
qed

text \<open>
  The theorem at a second attempt that is interrupted once and then fails with \<^verbatim>\<open>EACCES\<close>.
\<close>

theorem SetFileTimes_second_attempt_reported_witness:
  "map_option fst
     (SystemNative_UTime posix_build ''/tmp/a'' \<lparr>AcTime = 1, ModTime = 2\<rparr>
        (calm_world\<lparr>mono_io_portability_helpers := PORTABILITY_CASE,
                    kernel := Failed ENOENT ## Failed EINTR ## Failed 13 ## sconst Done,
                    find_file := lookup_upper\<rparr>))
   = Some (- 1) \<and>
   map_option (errno \<circ> snd)
     (SystemNative_UTime posix_build ''/tmp/a'' \<lparr>AcTime = 1, ModTime = 2\<rparr>
        (calm_world\<lparr>mono_io_portability_helpers := PORTABILITY_CASE,
                    kernel := Failed ENOENT ## Failed EINTR ## Failed 13 ## sconst Done,
                    find_file := lookup_upper\<rparr>))
   = Some 13"
proof -
  let ?w = "calm_world\<lparr>mono_io_portability_helpers := PORTABILITY_CASE,
                    kernel := Failed ENOENT ## Failed EINTR ## Failed 13 ## sconst Done,
                    find_file := lookup_upper\<rparr>"
  have k: "kernel ?w = replicate 0 (Failed EINTR) @- Failed ENOENT
             ## replicate (Suc 0) (Failed EINTR) @- Failed 13 ## sconst Done"
    by simp
  have e: "(13 :: int) \<noteq> EINTR"
    by (simp add: EINTR_def)
  have p: "IS_PORTABILITY_SET posix_build ?w"
    by (simp add: IS_PORTABILITY_SET_def posix_build_def PORTABILITY_CASE_def)
  have f: "fst (find_file ?w ''/tmp/a'' True) = Some ''/TMP/A''"
    by (simp add: lookup_upper_def)
  from SetFileTimes_second_attempt_reported [OF k e p f,
      where tms = "\<lparr>AcTime = 1, ModTime = 2\<rparr>"
        and tvs = "\<lparr>AcTimeSec = 1, AcTimeUSec = 0, ModTimeSec = 2, ModTimeUSec = 0\<rparr>"]
  show ?thesis
    by auto
qed

subsection \<open>The resolution of the timestamp\<close>

text \<open>
  What the resolution query can return: 1, or 0 together with the resolution 0; never
  -1.
\<close>

lemma GetTimestampResolution_return_codes:
  assumes "SystemNative_GetTimestampResolution cfg h = Inr (rc, res)"
  shows "(rc = 1 \<or> (rc = 0 \<and> res = 0)) \<and> rc \<noteq> - 1"
  using assms
  by (auto simp: SystemNative_GetTimestampResolution_def split: if_splits prod.splits)

text \<open>
  \<^bold>\<open>C2\<close>. On a Mach build the resolution is computed as \<open>10^9 * (denom div numer)\<close>: the
  division comes first and drops the remainder. With the timebase 125/3 the exact rate is
  \<open>10^9 * 3 / 125 = 24000000\<close> ticks per second; the query writes 0.
\<close>

theorem GetTimestampResolution_divides_first:
  "SystemNative_GetTimestampResolution mach_build
     (quiet_host\<lparr>mach_timebase_info := (KERN_SUCCESS, \<lparr>numer = 125, denom = 3\<rparr>)\<rparr>)
     = Inr (1, 0) \<and>
   (1000000000 * 3 :: int) = 24000000 * 125"
  by (simp add: SystemNative_GetTimestampResolution_def mach_build_def quiet_host_def
      SecondsToNanoSeconds_def KERN_SUCCESS_def)

text \<open>
  \<^bold>\<open>C6\<close>. With the same timebase the probe succeeds and the query returns 1, yet the
  resolution it writes is 0, the value its own failure branches write.
\<close>

theorem GetTimestampResolution_zero_rate:
  "fst (mach_timebase_info
          (quiet_host\<lparr>mach_timebase_info := (KERN_SUCCESS, \<lparr>numer = 125, denom = 3\<rparr>)\<rparr>))
     = KERN_SUCCESS \<and>
   SystemNative_GetTimestampResolution mach_build
     (quiet_host\<lparr>mach_timebase_info := (KERN_SUCCESS, \<lparr>numer = 125, denom = 3\<rparr>)\<rparr>)
     = Inr (1, 0)"
  by (simp add: SystemNative_GetTimestampResolution_def mach_build_def quiet_host_def
      SecondsToNanoSeconds_def KERN_SUCCESS_def)

text \<open>
  \<^bold>\<open>C8\<close>. Two successful resolution queries of one build, on hosts with the same timebase,
  write the same resolution.
\<close>

theorem GetTimestampResolution_constant:
  assumes r1: "SystemNative_GetTimestampResolution cfg h1 = Inr (1, res1)"
    and r2: "SystemNative_GetTimestampResolution cfg h2 = Inr (1, res2)"
    and tb: "snd (mach_timebase_info h1) = snd (mach_timebase_info h2)"
  shows "res1 = res2"
proof -
  obtain k1 m1 where m1: "mach_timebase_info h1 = (k1, m1)"
    by (cases "mach_timebase_info h1")
  obtain k2 m2 where m2: "mach_timebase_info h2 = (k2, m2)"
    by (cases "mach_timebase_info h2")
  have same: "m1 = m2"
    using tb m1 m2 by simp
  show ?thesis
    using r1 r2 m1 m2 same
    by (simp add: SystemNative_GetTimestampResolution_def split: if_splits)
qed

text \<open>The theorem at two calls on a Mach host with the timebase 1/3.\<close>

theorem GetTimestampResolution_constant_witness:
  "SystemNative_GetTimestampResolution mach_build
     (quiet_host\<lparr>mach_timebase_info := (0, \<lparr>numer = 1, denom = 3\<rparr>)\<rparr>)
     = Inr (1, 3000000000) \<and>
   SystemNative_GetTimestampResolution mach_build
     (quiet_host\<lparr>mach_timebase_info := (0, \<lparr>numer = 1, denom = 3\<rparr>),
                 mach_absolute_time := 77\<rparr>)
     = Inr (1, 3000000000) \<and>
   (3000000000 :: 64 word) = 3000000000"
proof -
  let ?h1 = "quiet_host\<lparr>mach_timebase_info := (0, \<lparr>numer = 1, denom = 3\<rparr>)\<rparr>"
  let ?h2 = "quiet_host\<lparr>mach_timebase_info := (0, \<lparr>numer = 1, denom = 3\<rparr>),
                        mach_absolute_time := 77\<rparr>"
  have r1: "SystemNative_GetTimestampResolution mach_build ?h1 = Inr (1, 3000000000)"
    by (simp add: SystemNative_GetTimestampResolution_def mach_build_def quiet_host_def
        SecondsToNanoSeconds_def KERN_SUCCESS_def)
  have r2: "SystemNative_GetTimestampResolution mach_build ?h2 = Inr (1, 3000000000)"
    by (simp add: SystemNative_GetTimestampResolution_def mach_build_def quiet_host_def
        SecondsToNanoSeconds_def KERN_SUCCESS_def)
  have tb: "snd (mach_timebase_info ?h1) = snd (mach_timebase_info ?h2)"
    by simp
  from GetTimestampResolution_constant [OF r1 r2 tb] r1 r2
  show ?thesis by simp
qed

subsection \<open>Timestamps\<close>

text \<open>
  \<^bold>\<open>C7\<close>, as amended. The readings of the selected primitive do not decrease, their fractions
  are in range, and each reading is non-negative with a tick count below \<open>2^64\<close>. Then the
  timestamps of two successful calls do not decrease.
\<close>

theorem GetTimestamp_nondecreasing:
  assumes r1: "SystemNative_GetTimestamp cfg h1 = Inr (1, t1)"
    and r2: "SystemNative_GetTimestamp cfg h2 = Inr (1, t2)"
    and ord: "readings_nondecreasing cfg h1 h2"
    and frac: "fraction_in_range cfg h1" "fraction_in_range cfg h2"
    and fit: "ticks_fit cfg h1" "ticks_fit cfg h2"
  shows "t1 \<le> t2"
proof (cases "HAVE_CLOCK_MONOTONIC cfg")
  case True
  obtain c1 a where a: "clock_gettime_MONOTONIC h1 = (c1, a)"
    by (cases "clock_gettime_MONOTONIC h1")
  obtain c2 b where b: "clock_gettime_MONOTONIC h2 = (c2, b)"
    by (cases "clock_gettime_MONOTONIC h2")
  have t1: "t1 = ts_sec a * 1000000000 + ts_nsec a"
    using r1 True a
    by (simp add: SystemNative_GetTimestamp_def SecondsToNanoSeconds_def split: if_splits)
  have t2: "t2 = ts_sec b * 1000000000 + ts_nsec b"
    using r2 True b
    by (simp add: SystemNative_GetTimestamp_def SecondsToNanoSeconds_def split: if_splits)
  have "ts_sec a * 1000000000 + ts_nsec a \<le> ts_sec b * 1000000000 + ts_nsec b"
    using ord frac fit True a b
    by (intro ticks_mono)
      (simp_all add: readings_nondecreasing_def fraction_in_range_def ticks_fit_def
        timespec_le_def)
  then show ?thesis
    using t1 t2 by simp
next
  case False
  note mono = False
  show ?thesis
  proof (cases "HAVE_MACH_ABSOLUTE_TIME cfg")
    case True
    then show ?thesis
      using r1 r2 ord mono
      by (simp add: SystemNative_GetTimestamp_def readings_nondecreasing_def)
  next
    case False
    obtain c1 a where a: "gettimeofday h1 = (c1, a)"
      by (cases "gettimeofday h1")
    obtain c2 b where b: "gettimeofday h2 = (c2, b)"
      by (cases "gettimeofday h2")
    have t1: "t1 = tv_sec a * 1000000 + tv_usec a"
      using r1 mono False a
      by (simp add: SystemNative_GetTimestamp_def SecondsToMicroSeconds_def split: if_splits)
    have t2: "t2 = tv_sec b * 1000000 + tv_usec b"
      using r2 mono False b
      by (simp add: SystemNative_GetTimestamp_def SecondsToMicroSeconds_def split: if_splits)
    have "tv_sec a * 1000000 + tv_usec a \<le> tv_sec b * 1000000 + tv_usec b"
      using ord frac fit mono False a b
      by (intro ticks_mono)
        (simp_all add: readings_nondecreasing_def fraction_in_range_def ticks_fit_def
          timeval_le_def)
    then show ?thesis
      using t1 t2 by simp
  qed
qed

text \<open>The theorem at the readings 7.999999999 s and 8 s.\<close>

theorem GetTimestamp_nondecreasing_witness:
  "SystemNative_GetTimestamp posix_build
     (quiet_host\<lparr>clock_gettime_MONOTONIC := (0, \<lparr>ts_sec = 7, ts_nsec = 999999999\<rparr>)\<rparr>)
     = Inr (1, 7999999999) \<and>
   SystemNative_GetTimestamp posix_build
     (quiet_host\<lparr>clock_gettime_MONOTONIC := (0, \<lparr>ts_sec = 8, ts_nsec = 0\<rparr>)\<rparr>)
     = Inr (1, 8000000000) \<and>
   (7999999999 :: 64 word) \<le> 8000000000"
proof -
  let ?h1 = "quiet_host\<lparr>clock_gettime_MONOTONIC := (0, \<lparr>ts_sec = 7, ts_nsec = 999999999\<rparr>)\<rparr>"
  let ?h2 = "quiet_host\<lparr>clock_gettime_MONOTONIC := (0, \<lparr>ts_sec = 8, ts_nsec = 0\<rparr>)\<rparr>"
  have r1: "SystemNative_GetTimestamp posix_build ?h1 = Inr (1, 7999999999)"
    by (simp add: SystemNative_GetTimestamp_def posix_build_def quiet_host_def
        SecondsToNanoSeconds_def)
  have r2: "SystemNative_GetTimestamp posix_build ?h2 = Inr (1, 8000000000)"
    by (simp add: SystemNative_GetTimestamp_def posix_build_def quiet_host_def
        SecondsToNanoSeconds_def)
  have ord: "readings_nondecreasing posix_build ?h1 ?h2"
    by (simp add: readings_nondecreasing_def timespec_le_def posix_build_def quiet_host_def)
  have f1: "fraction_in_range posix_build ?h1" and f2: "fraction_in_range posix_build ?h2"
    by (simp_all add: fraction_in_range_def posix_build_def quiet_host_def)
  have g1: "ticks_fit posix_build ?h1" and g2: "ticks_fit posix_build ?h2"
    by (simp_all add: ticks_fit_def posix_build_def quiet_host_def)
  from GetTimestamp_nondecreasing [OF r1 r2 ord f1 f2 g1 g2] r1 r2
  show ?thesis by simp
qed

text \<open>
  Without the bound the claim fails: from 18446744073 s to 18446744074 s the product with
  \<open>10^9\<close> passes \<open>2^64\<close> and the timestamp wraps around.
\<close>

theorem GetTimestamp_wraps_counterexample:
  "fraction_in_range posix_build
     (quiet_host\<lparr>clock_gettime_MONOTONIC := (0, \<lparr>ts_sec = 18446744073, ts_nsec = 0\<rparr>)\<rparr>) \<and>
   fraction_in_range posix_build
     (quiet_host\<lparr>clock_gettime_MONOTONIC := (0, \<lparr>ts_sec = 18446744074, ts_nsec = 0\<rparr>)\<rparr>) \<and>
   readings_nondecreasing posix_build
     (quiet_host\<lparr>clock_gettime_MONOTONIC := (0, \<lparr>ts_sec = 18446744073, ts_nsec = 0\<rparr>)\<rparr>)
     (quiet_host\<lparr>clock_gettime_MONOTONIC := (0, \<lparr>ts_sec = 18446744074, ts_nsec = 0\<rparr>)\<rparr>) \<and>
   SystemNative_GetTimestamp posix_build
     (quiet_host\<lparr>clock_gettime_MONOTONIC := (0, \<lparr>ts_sec = 18446744073, ts_nsec = 0\<rparr>)\<rparr>)
     = Inr (1, 18446744073000000000) \<and>
   SystemNative_GetTimestamp posix_build
     (quiet_host\<lparr>clock_gettime_MONOTONIC := (0, \<lparr>ts_sec = 18446744074, ts_nsec = 0\<rparr>)\<rparr>)
     = Inr (1, 290448384) \<and>
   \<not> (18446744073000000000 :: 64 word) \<le> 290448384"
  by (simp add: SystemNative_GetTimestamp_def posix_build_def quiet_host_def
      SecondsToNanoSeconds_def fraction_in_range_def readings_nondecreasing_def
      timespec_le_def)

subsection \<open>The timebase\<close>

text \<open>
  \<^bold>\<open>C10\<close>, as amended. When assertions are compiled out, or the build has no timebase
  query, or the query succeeds, \<^verbatim>\<open>SystemNative_GetTimebaseInfo\<close> returns 1 and writes both
  numbers: those of the host when the query succeeded, and 1 and 1 when the query is
  missing or has failed. The denominator written is then not zero, provided a successful
  query does not report a zero denominator. With assertions compiled in, a failing query
  stops at \<^verbatim>\<open>assert(ret == KERN_SUCCESS)\<close> and the function does not return.
\<close>

theorem GetTimebaseInfo_returns:
  "(NDEBUG cfg \<or> \<not> HAVE_MACH_TIMEBASE_INFO cfg
      \<or> fst (mach_timebase_info h) = KERN_SUCCESS \<longrightarrow>
     (\<exists>n d. SystemNative_GetTimebaseInfo cfg h = Inr (1, n, d) \<and>
        (if HAVE_MACH_TIMEBASE_INFO cfg \<and> fst (mach_timebase_info h) = KERN_SUCCESS
         then n = numer (snd (mach_timebase_info h)) \<and> d = denom (snd (mach_timebase_info h))
         else n = 1 \<and> d = 1) \<and>
        ((HAVE_MACH_TIMEBASE_INFO cfg \<and> fst (mach_timebase_info h) = KERN_SUCCESS
            \<longrightarrow> denom (snd (mach_timebase_info h)) \<noteq> 0) \<longrightarrow> d \<noteq> 0))) \<and>
   (\<not> NDEBUG cfg \<and> HAVE_MACH_TIMEBASE_INFO cfg
      \<and> fst (mach_timebase_info h) \<noteq> KERN_SUCCESS \<longrightarrow>
     SystemNative_GetTimebaseInfo cfg h = Inl AssertionFailed)"
  by (cases "mach_timebase_info h") (auto simp: SystemNative_GetTimebaseInfo_def)

text \<open>
  The theorem at a build without assertions whose query fails, at a successful query,
  and at a build with assertions whose query fails.
\<close>

theorem GetTimebaseInfo_returns_witness:
  "SystemNative_GetTimebaseInfo (mach_build\<lparr>NDEBUG := True\<rparr>)
     (quiet_host\<lparr>mach_timebase_info := (5, \<lparr>numer = 0, denom = 0\<rparr>)\<rparr>) = Inr (1, 1, 1) \<and>
   SystemNative_GetTimebaseInfo mach_build
     (quiet_host\<lparr>mach_timebase_info := (KERN_SUCCESS, \<lparr>numer = 125, denom = 3\<rparr>)\<rparr>)
     = Inr (1, 125, 3) \<and>
   SystemNative_GetTimebaseInfo mach_build
     (quiet_host\<lparr>mach_timebase_info := (5, \<lparr>numer = 0, denom = 0\<rparr>)\<rparr>)
     = Inl AssertionFailed"
proof -
  let ?rel = "mach_build\<lparr>NDEBUG := True\<rparr>"
  let ?bad = "quiet_host\<lparr>mach_timebase_info := (5, \<lparr>numer = 0, denom = 0\<rparr>)\<rparr>"
  let ?good = "quiet_host\<lparr>mach_timebase_info := (KERN_SUCCESS, \<lparr>numer = 125, denom = 3\<rparr>)\<rparr>"
  have a: "SystemNative_GetTimebaseInfo ?rel ?bad = Inr (1, 1, 1)"
    using GetTimebaseInfo_returns [of ?rel ?bad] by (auto simp: KERN_SUCCESS_def)
  have b: "SystemNative_GetTimebaseInfo mach_build ?good = Inr (1, 125, 3)"
    using GetTimebaseInfo_returns [of mach_build ?good] by (auto simp: mach_build_def)
  have c: "SystemNative_GetTimebaseInfo mach_build ?bad = Inl AssertionFailed"
    using GetTimebaseInfo_returns [of mach_build ?bad] by (auto simp: mach_build_def KERN_SUCCESS_def)
  from a b c show ?thesis by simp
qed

text \<open>
  The claim as stated fails twice. With assertions compiled in, a failing query does not
  return 1; and a successful query that reports the denominator 0 has that 0 written.
\<close>

theorem GetTimebaseInfo_counterexample:
  "SystemNative_GetTimebaseInfo mach_build
     (quiet_host\<lparr>mach_timebase_info := (5, \<lparr>numer = 0, denom = 0\<rparr>)\<rparr>) = Inl AssertionFailed \<and>
   SystemNative_GetTimebaseInfo mach_build
     (quiet_host\<lparr>mach_timebase_info := (KERN_SUCCESS, \<lparr>numer = 1, denom = 0\<rparr>)\<rparr>)
     = Inr (1, 1, 0)"
  by (simp add: SystemNative_GetTimebaseInfo_def mach_build_def KERN_SUCCESS_def)

end
